theory Spec2Isabelle
  imports Complex_Main
begin

section \<open>The chat-completions gateway of optillm.py\<close>

text \<open>
  The request handler \<^verbatim>\<open>proxy\<close> (optillm.py, lines 44-130) and the start-up code
  \<^verbatim>\<open>main\<close> (lines 132-166) are embedded here. The handler is dynamically typed, so
  the decoded request body is a JSON value and every Python exception the handler's own
  statements can raise is a branch of the model. The reasoning strategies
  (\<^verbatim>\<open>chat_with_mcts\<close>, \<^verbatim>\<open>best_of_n_sampling\<close>, ...) are imported modules outside
  this file; they enter as a parameter that maps a call to what the call returns or to
  the message of the exception it raises.
\<close>

subsection \<open>Values\<close>

text \<open>
  What \<^verbatim>\<open>request.get_json()\<close> can return. A decoded object is an association list that
  is read with \<open>map_of\<close>. Floats are only stored and passed on, never computed with.
\<close>

datatype json =
    JNull
  | JBool bool
  | JInt int
  | JFloat real
  | JStr string
  | JArr "json list"
  | JObj "(string \<times> json) list"

text \<open>
  The exceptions raised by the handler's own statements. \<open>KeyError\<close> carries the missing
  key and \<open>ValueError\<close> its message; the messages of the other three are not modelled.
\<close>

datatype exn =
    AttributeError
  | TypeError
  | IndexError
  | KeyError string
  | ValueError string

text \<open>
  \<^verbatim>\<open>str(e)\<close> for the two exceptions the handler's statements raise inside the
  \<^verbatim>\<open>try\<close> block: a \<open>ValueError\<close> prints its message, a \<open>KeyError\<close> the
  \<^verbatim>\<open>repr\<close> of its key.
\<close>

fun str_exn :: "exn \<Rightarrow> string" where
  "str_exn (ValueError msg) = msg"
| "str_exn (KeyError k) = [CHR 0x27] @ k @ [CHR 0x27]"

text \<open>\<^verbatim>\<open>d.get(k, default)\<close>: only a dict has the method.\<close>

fun dict_get :: "json \<Rightarrow> string \<Rightarrow> json \<Rightarrow> exn + json" where
  "dict_get (JObj kvs) k d = Inr (case map_of kvs k of Some v \<Rightarrow> v | None \<Rightarrow> d)"
| "dict_get _ k d = Inl AttributeError"

text \<open>\<^verbatim>\<open>v[k]\<close> with a string key: a dict looks the key up, every other value rejects it.\<close>

fun getitem :: "json \<Rightarrow> string \<Rightarrow> exn + json" where
  "getitem (JObj kvs) k = (case map_of kvs k of Some v \<Rightarrow> Inr v | None \<Rightarrow> Inl (KeyError k))"
| "getitem _ k = Inl TypeError"

text \<open>
  \<^verbatim>\<open>for msg in v\<close>: a list yields its elements, a string its characters, a dict its
  keys; \<^verbatim>\<open>None\<close>, booleans and numbers are not iterable.
\<close>

fun iter :: "json \<Rightarrow> exn + json list" where
  "iter (JArr xs) = Inr xs"
| "iter (JStr s) = Inr (map (\<lambda>c. JStr [c]) s)"
| "iter (JObj kvs) = Inr (map (\<lambda>kv. JStr (fst kv)) kvs)"
| "iter _ = Inl TypeError"

text \<open>
  \<^verbatim>\<open>s.split(sep, 1)\<close>: \<open>find_sep\<close> scans for the first separator and returns what is
  before and after it.
\<close>

fun find_sep :: "char \<Rightarrow> string \<Rightarrow> (string \<times> string) option" where
  "find_sep sep [] = None"
| "find_sep sep (c # cs) =
     (if c = sep then Some ([], cs)
      else (case find_sep sep cs of None \<Rightarrow> None | Some (a, b) \<Rightarrow> Some (c # a, b)))"

definition split_1 :: "char \<Rightarrow> string \<Rightarrow> string list" where
  "split_1 sep s = (case find_sep sep s of None \<Rightarrow> [s] | Some (a, b) \<Rightarrow> [a, b])"

text \<open>\<^verbatim>\<open>model.split('-', 1)\<close>: only a string has the method.\<close>

fun split_model :: "json \<Rightarrow> exn + string list" where
  "split_model (JStr s) = Inr (split_1 CHR ''-'' s)"
| "split_model _ = Inl AttributeError"

text \<open>\<^verbatim>\<open>parts[i]\<close> on a list, for an index that is not negative.\<close>

definition list_index :: "'a list \<Rightarrow> nat \<Rightarrow> exn + 'a" where
  "list_index xs i = (if i < length xs then Inr (xs ! i) else Inl IndexError)"

subsection \<open>Configuration and start-up\<close>

text \<open>
  The dict \<^verbatim>\<open>server_config\<close>. The literal of lines 31-42 has ten keys;
  \<^verbatim>\<open>base_url\<close> and \<^verbatim>\<open>return_full_response\<close> exist only once \<^verbatim>\<open>main\<close> has run, so
  these two are optional and reading them while absent is a \<open>KeyError\<close>.
\<close>

record config =
  cfg_approach :: string
  cfg_mcts_simulations :: int
  cfg_mcts_exploration :: real
  cfg_mcts_depth :: int
  cfg_best_of_n :: int
  cfg_model :: string
  cfg_rstar_max_depth :: int
  cfg_rstar_num_rollouts :: int
  cfg_rstar_c :: real
  cfg_n :: int
  cfg_base_url :: "string option"
  cfg_return_full_response :: "bool option"

definition server_config :: config where
  "server_config =
     \<lparr> cfg_approach = ''bon'',
       cfg_mcts_simulations = 2,
       cfg_mcts_exploration = 0.2,
       cfg_mcts_depth = 1,
       cfg_best_of_n = 3,
       cfg_model = ''gpt-4o-mini'',
       cfg_rstar_max_depth = 3,
       cfg_rstar_num_rollouts = 5,
       cfg_rstar_c = 1.4,
       cfg_n = 1,
       cfg_base_url = None,
       cfg_return_full_response = None \<rparr>"

text \<open>The parsed command line (lines 133-147).\<close>

record args =
  arg_approach :: string
  arg_simulations :: int
  arg_exploration :: real
  arg_depth :: int
  arg_best_of_n :: int
  arg_model :: string
  arg_base_url :: string
  arg_rstar_max_depth :: int
  arg_rstar_num_rollouts :: int
  arg_rstar_c :: real
  arg_n :: int
  arg_return_full_response :: bool

text \<open>The defaults of the argument parser.\<close>

definition default_args :: args where
  "default_args =
     \<lparr> arg_approach = ''auto'',
       arg_simulations = 2,
       arg_exploration = 0.2,
       arg_depth = 1,
       arg_best_of_n = 3,
       arg_model = ''gpt-4o-mini'',
       arg_base_url = '''',
       arg_rstar_max_depth = 3,
       arg_rstar_num_rollouts = 5,
       arg_rstar_c = 1.4,
       arg_n = 1,
       arg_return_full_response = False \<rparr>"

text \<open>\<^verbatim>\<open>server_config.update({...})\<close> in \<^verbatim>\<open>main\<close> (lines 149-162).\<close>

definition main :: "args \<Rightarrow> config \<Rightarrow> config" where
  "main a cfg =
     cfg\<lparr> cfg_model := arg_model a,
          cfg_approach := arg_approach a,
          cfg_mcts_simulations := arg_simulations a,
          cfg_mcts_exploration := arg_exploration a,
          cfg_mcts_depth := arg_depth a,
          cfg_best_of_n := arg_best_of_n a,
          cfg_rstar_max_depth := arg_rstar_max_depth a,
          cfg_rstar_num_rollouts := arg_rstar_num_rollouts a,
          cfg_rstar_c := arg_rstar_c a,
          cfg_base_url := Some (arg_base_url a),
          cfg_return_full_response := Some (arg_return_full_response a),
          cfg_n := arg_n a \<rparr>"

subsection \<open>Backend clients and strategy calls\<close>

text \<open>
  An \<^verbatim>\<open>OpenAI\<close> client is known by the arguments of its constructor. \<open>key\<close> is
  \<^verbatim>\<open>API_KEY\<close>, read from the environment when the module is loaded (line 27).
\<close>

datatype client = OpenAI (client_api_key: "string option") (client_base_url: "string option")

definition default_client :: "string option \<Rightarrow> client" where
  "default_client key = OpenAI key None"

text \<open>
  One constructor for each call of the \<^verbatim>\<open>try\<close> block, with the arguments in the order
  of the source. The two class-based strategies are one call each: the constructor's
  arguments, then the query.
\<close>

datatype strategy_call =
    chat_with_mcts json json client json int real int
  | best_of_n_sampling json json client json int
  | mixture_of_agents json json client json
  | round_trip_optimization json json client json
  | Z3SolverSystem_process_query json client json json
  | advanced_self_consistency_approach json json client json
  | inference_time_pv_game json json client json
  | RStar_solve json client json int int real json
  | cot_reflection json json client json bool
  | plansearch json json client json json

text \<open>The client and the model a call hands to its strategy.\<close>

fun client_of :: "strategy_call \<Rightarrow> client" where
  "client_of (chat_with_mcts sp q c m s e d) = c"
| "client_of (best_of_n_sampling sp q c m k) = c"
| "client_of (mixture_of_agents sp q c m) = c"
| "client_of (round_trip_optimization sp q c m) = c"
| "client_of (Z3SolverSystem_process_query sp c m q) = c"
| "client_of (advanced_self_consistency_approach sp q c m) = c"
| "client_of (inference_time_pv_game sp q c m) = c"
| "client_of (RStar_solve sp c m d r x q) = c"
| "client_of (cot_reflection sp q c m f) = c"
| "client_of (plansearch sp q c m k) = c"

fun model_of :: "strategy_call \<Rightarrow> json" where
  "model_of (chat_with_mcts sp q c m s e d) = m"
| "model_of (best_of_n_sampling sp q c m k) = m"
| "model_of (mixture_of_agents sp q c m) = m"
| "model_of (round_trip_optimization sp q c m) = m"
| "model_of (Z3SolverSystem_process_query sp c m q) = m"
| "model_of (advanced_self_consistency_approach sp q c m) = m"
| "model_of (inference_time_pv_game sp q c m) = m"
| "model_of (RStar_solve sp c m d r x q) = m"
| "model_of (cot_reflection sp q c m f) = m"
| "model_of (plansearch sp q c m k) = m"

subsection \<open>The handler, up to the try block (lines 47-68)\<close>

text \<open>
  \<^verbatim>\<open>next((msg['content'] for msg in messages if msg['role'] == role), "")\<close>: the
  messages are read in order; the first whose role is the wanted one gives its content.
\<close>

fun next_content :: "string \<Rightarrow> json list \<Rightarrow> exn + json" where
  "next_content role [] = Inr (JStr '''')"
| "next_content role (msg # rest) =
     (case getitem msg ''role'' of
        Inl e \<Rightarrow> Inl e
      | Inr r \<Rightarrow> if r = JStr role then getitem msg ''content'' else next_content role rest)"

text \<open>Lines 50-55: what the handler takes from the decoded body \<open>data\<close>.\<close>

record chat_request =
  req_model :: json
  req_n :: json
  req_system_prompt :: json
  req_initial_query :: json

definition translate :: "config \<Rightarrow> json \<Rightarrow> exn + chat_request" where
  "translate cfg data =
     (case dict_get data ''messages'' (JArr []) of
        Inl e \<Rightarrow> Inl e
      | Inr messages \<Rightarrow>
     (case dict_get data ''model'' (JStr (cfg_model cfg)) of
        Inl e \<Rightarrow> Inl e
      | Inr model \<Rightarrow>
     (case dict_get data ''n'' (JInt (cfg_n cfg)) of
        Inl e \<Rightarrow> Inl e
      | Inr n \<Rightarrow>
     (case iter messages of
        Inl e \<Rightarrow> Inl e
      | Inr msgs \<Rightarrow>
     (case next_content ''system'' msgs of
        Inl e \<Rightarrow> Inl e
      | Inr system_prompt \<Rightarrow>
     (case next_content ''user'' msgs of
        Inl e \<Rightarrow> Inl e
      | Inr initial_query \<Rightarrow>
          Inr \<lparr> req_model = model, req_n = n,
                req_system_prompt = system_prompt,
                req_initial_query = initial_query \<rparr>))))))"

text \<open>The values the handler holds when it enters the \<^verbatim>\<open>try\<close> block.\<close>

record invocation =
  inv_system_prompt :: json
  inv_initial_query :: json
  inv_client :: client
  inv_approach :: string
  inv_model :: json
  inv_n :: json

text \<open>Lines 58-63: the client.\<close>

definition select_client :: "string option \<Rightarrow> config \<Rightarrow> exn + client" where
  "select_client key cfg =
     (case cfg_base_url cfg of
        None \<Rightarrow> Inl (KeyError ''base_url'')
      | Some base_url \<Rightarrow>
          Inr (if base_url \<noteq> '''' then OpenAI key (Some base_url) else default_client key))"

text \<open>Lines 57 and 65-68: the approach and the model.\<close>

definition resolve :: "config \<Rightarrow> json \<Rightarrow> exn + string \<times> json" where
  "resolve cfg model =
     (if cfg_approach cfg = ''auto'' then
        (case split_model model of
           Inl e \<Rightarrow> Inl e
         | Inr parts \<Rightarrow>
             (case list_index parts 0 of
                Inl e \<Rightarrow> Inl e
              | Inr approach \<Rightarrow>
                  (case list_index parts 1 of
                     Inl e \<Rightarrow> Inl e
                   | Inr model' \<Rightarrow> Inr (approach, JStr model'))))
      else Inr (cfg_approach cfg, model))"

text \<open>Lines 47-68 in the order of the source; the first exception ends them.\<close>

definition prepare :: "string option \<Rightarrow> config \<Rightarrow> json \<Rightarrow> exn + invocation" where
  "prepare key cfg data =
     (case translate cfg data of
        Inl e \<Rightarrow> Inl e
      | Inr rq \<Rightarrow>
     (case select_client key cfg of
        Inl e \<Rightarrow> Inl e
      | Inr client \<Rightarrow>
     (case resolve cfg (req_model rq) of
        Inl e \<Rightarrow> Inl e
      | Inr (approach, model) \<Rightarrow>
          Inr \<lparr> inv_system_prompt = req_system_prompt rq,
                inv_initial_query = req_initial_query rq,
                inv_client = client,
                inv_approach = approach,
                inv_model = model,
                inv_n = req_n rq \<rparr>)))"

subsection \<open>The try block (lines 72-102)\<close>

text \<open>
  The chain of comparisons, up to the call it selects. Reading
  \<^verbatim>\<open>server_config['return_full_response']\<close> and the final \<^verbatim>\<open>raise\<close> are the two
  statements of the block that can fail before a strategy is called.
\<close>

definition dispatch :: "config \<Rightarrow> invocation \<Rightarrow> exn + strategy_call" where
  "dispatch cfg v =
     (let system_prompt = inv_system_prompt v; initial_query = inv_initial_query v;
          client = inv_client v; model = inv_model v; approach = inv_approach v
      in
      if approach = ''mcts'' then
        Inr (chat_with_mcts system_prompt initial_query client model
               (cfg_mcts_simulations cfg) (cfg_mcts_exploration cfg) (cfg_mcts_depth cfg))
      else if approach = ''bon'' then
        Inr (best_of_n_sampling system_prompt initial_query client model (cfg_best_of_n cfg))
      else if approach = ''moa'' then
        Inr (mixture_of_agents system_prompt initial_query client model)
      else if approach = ''rto'' then
        Inr (round_trip_optimization system_prompt initial_query client model)
      else if approach = ''z3'' then
        Inr (Z3SolverSystem_process_query system_prompt client model initial_query)
      else if approach = ''self_consistency'' then
        Inr (advanced_self_consistency_approach system_prompt initial_query client model)
      else if approach = ''pvg'' then
        Inr (inference_time_pv_game system_prompt initial_query client model)
      else if approach = ''rstar'' then
        Inr (RStar_solve system_prompt client model
               (cfg_rstar_max_depth cfg) (cfg_rstar_num_rollouts cfg) (cfg_rstar_c cfg)
               initial_query)
      else if approach = ''cot_reflection'' then
        (case cfg_return_full_response cfg of
           None \<Rightarrow> Inl (KeyError ''return_full_response'')
         | Some full \<Rightarrow> Inr (cot_reflection system_prompt initial_query client model full))
      else if approach = ''plansearch'' then
        Inr (plansearch system_prompt initial_query client model (inv_n v))
      else Inl (ValueError (''Unknown approach: '' @ approach)))"

subsection \<open>The response (lines 102-130)\<close>

definition choice :: "int \<Rightarrow> json \<Rightarrow> json" where
  "choice index response =
     JObj [(''index'', JInt index),
           (''message'', JObj [(''role'', JStr ''assistant''), (''content'', response)]),
           (''finish_reason'', JStr ''stop'')]"

text \<open>
  The loop of lines 110-118: \<open>choices\<close> is the list built so far, \<open>index\<close> the counter
  of \<^verbatim>\<open>enumerate\<close>.
\<close>

fun append_choices :: "json list \<Rightarrow> int \<Rightarrow> json list \<Rightarrow> json list" where
  "append_choices choices index [] = choices"
| "append_choices choices index (response # rest) =
     append_choices (choices @ [choice index response]) (index + 1) rest"

text \<open>Lines 104-127: \<^verbatim>\<open>isinstance(final_response, list)\<close> decides.\<close>

fun response_data :: "json \<Rightarrow> json \<Rightarrow> json" where
  "response_data model (JArr final_response) =
     JObj [(''model'', model), (''choices'', JArr (append_choices [] 0 final_response))]"
| "response_data model final_response =
     JObj [(''model'', model), (''choices'', JArr ([] @ [choice 0 final_response]))]"

text \<open>
  How a run of the handler ends: with \<^verbatim>\<open>jsonify(body), status\<close>, or with an exception
  that leaves the handler.
\<close>

datatype outcome = Response json nat | Uncaught exn

definition error_body :: "string \<Rightarrow> json" where
  "error_body msg = JObj [(''error'', JStr msg)]"

subsection \<open>The handler\<close>

text \<open>
  A run gives the outcome, the strategy calls it made, and \<^verbatim>\<open>server_config\<close> as the
  run leaves it. \<open>strategies\<close> answers a call with \<open>Inr\<close> of the value it returns or
  with \<open>Inl\<close> of \<^verbatim>\<open>str(e)\<close> for the \<^verbatim>\<open>Exception\<close> it raises.
\<close>

record run =
  returned :: outcome
  invoked :: "strategy_call list"
  config_after :: config

definition proxy ::
  "string option \<Rightarrow> (strategy_call \<Rightarrow> string + json) \<Rightarrow> config \<Rightarrow> json \<Rightarrow> run" where
  "proxy key strategies cfg data =
     (case prepare key cfg data of
        Inl e \<Rightarrow> \<lparr> returned = Uncaught e, invoked = [], config_after = cfg \<rparr>
      | Inr v \<Rightarrow>
          (case dispatch cfg v of
             Inl e \<Rightarrow>
               \<lparr> returned = Response (error_body (str_exn e)) 500,
                 invoked = [], config_after = cfg \<rparr>
           | Inr call \<Rightarrow>
               (case strategies call of
                  Inl msg \<Rightarrow>
                    \<lparr> returned = Response (error_body msg) 500,
                      invoked = [call], config_after = cfg \<rparr>
                | Inr final_response \<Rightarrow>
                    \<lparr> returned = Response (response_data (inv_model v) final_response) 200,
                      invoked = [call], config_after = cfg \<rparr>)))"

text \<open>A sequence of requests served one after the other by the same process.\<close>

fun serve ::
  "string option \<Rightarrow> (strategy_call \<Rightarrow> string + json) \<Rightarrow> config \<Rightarrow> json list \<Rightarrow> outcome list \<times> config" where
  "serve key strategies cfg [] = ([], cfg)"
| "serve key strategies cfg (data # rest) =
     (let r = proxy key strategies cfg data;
          (outs, cfg') = serve key strategies (config_after r) rest
      in (returned r # outs, cfg'))"

subsection \<open>Names and sample inputs\<close>

text \<open>The strings the chain of lines 73-96 compares the approach with.\<close>

definition approaches :: "string list" where
  "approaches = [''mcts'', ''bon'', ''moa'', ''rto'', ''z3'', ''self_consistency'', ''pvg'',
                 ''rstar'', ''cot_reflection'', ''plansearch'']"

text \<open>A strategy layer that returns the same value to every call, and one that always raises.\<close>

definition answering :: "json \<Rightarrow> strategy_call \<Rightarrow> string + json" where
  "answering r call = Inr r"

definition failing :: "string \<Rightarrow> strategy_call \<Rightarrow> string + json" where
  "failing msg call = Inl msg"

text \<open>
  The configuration of a server started without arguments, and of one started with
  \<^verbatim>\<open>--approach bon\<close>.
\<close>

definition cfg_auto :: config where
  "cfg_auto = main default_args server_config"

definition cfg_bon :: config where
  "cfg_bon = main (default_args\<lparr>arg_approach := ''bon''\<rparr>) server_config"

text \<open>
  The specification's reading of the messages: a field of an object, the first message
  that has a given role, and the content of that message or the empty string.
\<close>

fun field :: "json \<Rightarrow> string \<Rightarrow> json option" where
  "field (JObj kvs) k = map_of kvs k"
| "field _ k = None"

definition first_with_role :: "string \<Rightarrow> json list \<Rightarrow> json option" where
  "first_with_role role msgs = find (\<lambda>msg. field msg ''role'' = Some (JStr role)) msgs"

definition first_content_of_role :: "string \<Rightarrow> json list \<Rightarrow> json option" where
  "first_content_of_role role msgs =
     (case first_with_role role msgs of
        None \<Rightarrow> Some (JStr '''')
      | Some msg \<Rightarrow> field msg ''content'')"

definition well_formed_message :: "json \<Rightarrow> bool" where
  "well_formed_message msg \<longleftrightarrow> field msg ''role'' \<noteq> None \<and> field msg ''content'' \<noteq> None"

text \<open>A server started with \<^verbatim>\<open>--approach bon --base_url http://localhost:8080/v1\<close>.\<close>

definition cfg_local :: config where
  "cfg_local =
     main (default_args\<lparr>arg_approach := ''bon'', arg_base_url := ''http://localhost:8080/v1''\<rparr>)
       server_config"

text \<open>
  A request with one user message, and the values the handler derives from it when the
  API key is \<^verbatim>\<open>sk\<close> and no base URL is configured.
\<close>

definition body_hi :: "string \<Rightarrow> json" where
  "body_hi model =
     JObj [(''model'', JStr model),
           (''messages'', JArr [JObj [(''role'', JStr ''user''), (''content'', JStr ''hi'')]])]"

definition inv_hi :: "string \<Rightarrow> string \<Rightarrow> invocation" where
  "inv_hi approach model =
     \<lparr> inv_system_prompt = JStr '''', inv_initial_query = JStr ''hi'',
       inv_client = OpenAI (Some ''sk'') None, inv_approach = approach,
       inv_model = JStr model, inv_n = JInt 1 \<rparr>"

text \<open>A conversation with two messages of each role.\<close>

definition msgs_two_systems :: "json list" where
  "msgs_two_systems =
     [JObj [(''role'', JStr ''user''), (''content'', JStr ''first question'')],
      JObj [(''role'', JStr ''system''), (''content'', JStr ''be brief'')],
      JObj [(''role'', JStr ''system''), (''content'', JStr ''be long'')],
      JObj [(''role'', JStr ''user''), (''content'', JStr ''second question'')]]"

lemmas cfg_simps = cfg_auto_def cfg_bon_def main_def default_args_def server_config_def

lemmas run_simps = proxy_def prepare_def translate_def select_client_def resolve_def
  split_1_def list_index_def dispatch_def default_client_def

section \<open>Auxiliary facts\<close>

subsection \<open>Splitting at the first separator\<close>

lemma find_sep_None: "find_sep sep s = None \<longleftrightarrow> sep \<notin> set s"
  by (induction s) (auto split: option.splits)

lemma find_sep_first: "sep \<notin> set a \<Longrightarrow> find_sep sep (a @ sep # b) = Some (a, b)"
  by (induction a) auto

lemma find_sep_Some: "find_sep sep s = Some (a, b) \<Longrightarrow> s = a @ sep # b \<and> sep \<notin> set a"
  by (induction s arbitrary: a) (auto split: if_splits option.splits)

lemma resolve_auto_split:
  assumes "cfg_approach cfg = ''auto''" "CHR ''-'' \<notin> set a"
  shows "resolve cfg (JStr (a @ CHR ''-'' # b)) = Inr (a, JStr b)"
  using assms by (simp add: resolve_def split_1_def list_index_def find_sep_first)

lemma resolve_auto_InrD:
  assumes "cfg_approach cfg = ''auto''" "resolve cfg model = Inr (approach, model')"
  obtains b where "model = JStr (approach @ CHR ''-'' # b)" "CHR ''-'' \<notin> set approach"
    "model' = JStr b"
proof (cases model)
  case (JStr s)
  show ?thesis
  proof (cases "find_sep CHR ''-'' s")
    case None
    with assms JStr show ?thesis
      by (simp add: resolve_def split_1_def list_index_def)
  next
    case (Some p)
    obtain a b where p: "p = (a, b)" by (cases p)
    with Some have "s = a @ CHR ''-'' # b" "CHR ''-'' \<notin> set a"
      using find_sep_Some by blast+
    moreover from assms JStr Some p have "approach = a" "model' = JStr b"
      by (simp_all add: resolve_def split_1_def list_index_def)
    ultimately show ?thesis using that JStr by simp
  qed
qed (use assms in \<open>simp_all add: resolve_def\<close>)

subsection \<open>The choices loop\<close>

lemma append_choices_eq:
  "append_choices choices index xs =
     choices @ map (\<lambda>k. choice (index + int k) (xs ! k)) [0..<length xs]"
proof (induction xs arbitrary: choices index)
  case Nil
  then show ?case by simp
next
  case (Cons x xs)
  have "map (\<lambda>k. choice (index + int k) ((x # xs) ! k)) [0..<length (x # xs)] =
        choice index x # map (\<lambda>k. choice (index + 1 + int k) (xs ! k)) [0..<length xs]"
    by (simp add: upt_conv_Cons map_Suc_upt [symmetric] add.assoc del: upt_Suc)
  with Cons show ?case by simp
qed

subsection \<open>Reading the messages\<close>

lemma getitem_field: "getitem msg k = Inr v \<longleftrightarrow> field msg k = Some v"
  by (cases msg) (auto split: option.splits)

lemma next_content_spec:
  "next_content role msgs = Inr c \<Longrightarrow> first_content_of_role role msgs = Some c"
  by (induction msgs)
     (auto simp: first_content_of_role_def first_with_role_def getitem_field
           split: sum.splits if_splits)

lemma next_content_total:
  "\<forall>msg\<in>set msgs. well_formed_message msg \<Longrightarrow> \<exists>c. next_content role msgs = Inr c"
proof (induction msgs)
  case Nil
  then show ?case by simp
next
  case (Cons msg rest)
  then obtain r c where "field msg ''role'' = Some r" "field msg ''content'' = Some c"
    by (auto simp: well_formed_message_def)
  then have "getitem msg ''role'' = Inr r" "getitem msg ''content'' = Inr c"
    by (simp_all add: getitem_field)
  with Cons show ?case by simp
qed

subsection \<open>The stages of the handler\<close>

lemma translate_InrD:
  assumes "translate cfg data = Inr rq"
  obtains kvs msgs where "data = JObj kvs"
    "iter (case map_of kvs ''messages'' of None \<Rightarrow> JArr [] | Some m \<Rightarrow> m) = Inr msgs"
    "next_content ''system'' msgs = Inr (req_system_prompt rq)"
    "next_content ''user'' msgs = Inr (req_initial_query rq)"
    "req_model rq = (case map_of kvs ''model'' of None \<Rightarrow> JStr (cfg_model cfg) | Some m \<Rightarrow> m)"
    "req_n rq = (case map_of kvs ''n'' of None \<Rightarrow> JInt (cfg_n cfg) | Some m \<Rightarrow> m)"
proof (cases data)
  case (JObj kvs)
  with assms that [of kvs] show ?thesis
    by (auto simp: translate_def split: sum.splits)
qed (use assms in \<open>simp_all add: translate_def\<close>)

lemma prepare_InrD:
  assumes "prepare key cfg data = Inr v"
  obtains rq client where "translate cfg data = Inr rq" "select_client key cfg = Inr client"
    "resolve cfg (req_model rq) = Inr (inv_approach v, inv_model v)"
    "inv_client v = client" "inv_system_prompt v = req_system_prompt rq"
    "inv_initial_query v = req_initial_query rq" "inv_n v = req_n rq"
  using assms by (auto simp: prepare_def split: sum.splits prod.splits)

lemma dispatch_passes:
  "dispatch cfg v = Inr call \<Longrightarrow> client_of call = inv_client v \<and> model_of call = inv_model v"
  by (auto simp: dispatch_def Let_def split: if_splits option.splits)

lemma dispatch_unknown:
  "inv_approach v \<notin> set approaches \<Longrightarrow>
   dispatch cfg v = Inl (ValueError (''Unknown approach: '' @ inv_approach v))"
  by (simp add: dispatch_def approaches_def Let_def)

text \<open>Only the two exceptions that \<open>str_exn\<close> prints can come out of the chain.\<close>

lemma dispatch_raises:
  "dispatch cfg v = Inl e \<Longrightarrow>
   e = ValueError (''Unknown approach: '' @ inv_approach v) \<or> e = KeyError ''return_full_response''"
  by (auto simp: dispatch_def Let_def split: if_splits option.splits)

lemma proxy_config_after: "config_after (proxy key strategies cfg data) = cfg"
  by (simp add: proxy_def split: sum.splits)

lemma invoked_dispatch:
  "call \<in> set (invoked (proxy key strategies cfg data)) \<Longrightarrow>
   \<exists>v. prepare key cfg data = Inr v \<and> dispatch cfg v = Inr call"
  by (auto simp: proxy_def split: sum.splits)

subsection \<open>The sample requests, evaluated\<close>

lemma prepare_bon_hi:
  "prepare (Some ''sk'') cfg_bon (body_hi ''gpt-4o-mini'') = Inr (inv_hi ''bon'' ''gpt-4o-mini'')"
  by (simp add: body_hi_def inv_hi_def cfg_simps prepare_def translate_def select_client_def
        resolve_def default_client_def)

lemma prepare_auto_hi_mcts:
  "prepare (Some ''sk'') cfg_auto (body_hi ''mcts-gpt-4o-mini'') = Inr (inv_hi ''mcts'' ''gpt-4o-mini'')"
  by (simp add: body_hi_def inv_hi_def cfg_simps prepare_def translate_def select_client_def
        resolve_def default_client_def split_1_def list_index_def)

lemma prepare_auto_hi_gpt:
  "prepare (Some ''sk'') cfg_auto (body_hi ''gpt-4o-mini'') = Inr (inv_hi ''gpt'' ''4o-mini'')"
  by (simp add: body_hi_def inv_hi_def cfg_simps prepare_def translate_def select_client_def
        resolve_def default_client_def split_1_def list_index_def)

lemma dispatch_bon_hi:
  "dispatch cfg_bon (inv_hi ''bon'' model) =
     Inr (best_of_n_sampling (JStr '''') (JStr ''hi'') (OpenAI (Some ''sk'') None) (JStr model) 3)"
  by (simp add: dispatch_def inv_hi_def cfg_simps)

section \<open>The claims\<close>

text \<open>
  C1: every request is to get a JSON body, and every kind of failure is to be caught by
  the \<^verbatim>\<open>except\<close> clause and answered with status 500 and \<^verbatim>\<open>{"error": ...}\<close>. The
  handler does so for a failure inside the \<^verbatim>\<open>try\<close> block: when the strategy raises,
  the caller gets that body, whatever the message. It does not for a malformed request:
  with the server started with \<^verbatim>\<open>--approach bon\<close> and a request whose only message
  has no \<^verbatim>\<open>role\<close>, \<^verbatim>\<open>msg['role']\<close> on line 54 raises \<open>KeyError\<close> above the
  \<^verbatim>\<open>try\<close> of line 72. The exception leaves the handler, whatever the key and the
  strategies are: no strategy is called and no JSON body is returned.
\<close>

theorem malformed_message_leaves_handler:
  "proxy key strategies cfg_bon
      (JObj [(''model'', JStr ''gpt-4o-mini''),
             (''messages'', JArr [JObj [(''content'', JStr ''hi'')]])])
   = \<lparr> returned = Uncaught (KeyError ''role''), invoked = [], config_after = cfg_bon \<rparr>
   \<and> returned (proxy key (failing msg) cfg_bon (body_hi ''gpt-4o-mini''))
     = Response (JObj [(''error'', JStr msg)]) 500"
  by (simp add: body_hi_def cfg_simps run_simps failing_def error_body_def)

text \<open>
  C2: the server is started without arguments, so the approach is \<^verbatim>\<open>auto\<close>, and the
  request names the model \<^verbatim>\<open>gpt4\<close>. \<^verbatim>\<open>model.split('-', 1)\<close> gives one part, and
  \<^verbatim>\<open>parts[1]\<close> on line 68 raises \<open>IndexError\<close>. Line 68 is before the \<^verbatim>\<open>try\<close> of
  line 72: the exception leaves the handler, whatever the strategies would do, and the
  caller gets no \<^verbatim>\<open>{"error": ...}\<close> body.
\<close>

theorem auto_without_hyphen_leaves_handler:
  "resolve cfg_auto (JStr ''gpt4'') = Inl IndexError
   \<and> proxy key strategies cfg_auto (body_hi ''gpt4'') =
       \<lparr> returned = Uncaught IndexError, invoked = [], config_after = cfg_auto \<rparr>"
  by (simp add: body_hi_def cfg_simps run_simps)

text \<open>
  C3: in auto mode the model string is cut at its first hyphen. When \<open>a\<close> has no hyphen,
  the string \<open>a-b\<close> resolves to approach \<open>a\<close> and model \<open>b\<close>, whatever hyphens \<open>b\<close>
  has; and a request that sends \<open>a-b\<close> reaches the \<^verbatim>\<open>try\<close> block with these two values.
\<close>

theorem auto_splits_at_first_hyphen:
  assumes "cfg_approach cfg = ''auto''" and "CHR ''-'' \<notin> set a"
  shows "resolve cfg (JStr (a @ CHR ''-'' # b)) = Inr (a, JStr b)
       \<and> (field data ''model'' = Some (JStr (a @ CHR ''-'' # b)) \<longrightarrow>
            prepare key cfg data = Inr v \<longrightarrow> inv_approach v = a \<and> inv_model v = JStr b)"
proof -
  have r: "resolve cfg (JStr (a @ CHR ''-'' # b)) = Inr (a, JStr b)"
    using assms by (rule resolve_auto_split)
  have "inv_approach v = a \<and> inv_model v = JStr b"
    if m: "field data ''model'' = Some (JStr (a @ CHR ''-'' # b))"
      and p: "prepare key cfg data = Inr v"
  proof -
    from p obtain rq where t: "translate cfg data = Inr rq"
      and res: "resolve cfg (req_model rq) = Inr (inv_approach v, inv_model v)"
      by (rule prepare_InrD)
    from t obtain kvs where "data = JObj kvs"
      and "req_model rq = (case map_of kvs ''model'' of None \<Rightarrow> JStr (cfg_model cfg) | Some m \<Rightarrow> m)"
      by (rule translate_InrD)
    with m have "req_model rq = JStr (a @ CHR ''-'' # b)" by simp
    with res r show ?thesis by simp
  qed
  with r show ?thesis by blast
qed

text \<open>The theorem at the model \<^verbatim>\<open>mcts-gpt-4o-mini\<close>.\<close>

theorem auto_splits_at_first_hyphen_witness:
  "cfg_approach cfg_auto = ''auto'' \<and> CHR ''-'' \<notin> set ''mcts''
   \<and> field (body_hi ''mcts-gpt-4o-mini'') ''model'' = Some (JStr ''mcts-gpt-4o-mini'')
   \<and> prepare (Some ''sk'') cfg_auto (body_hi ''mcts-gpt-4o-mini'') = Inr (inv_hi ''mcts'' ''gpt-4o-mini'')
   \<and> resolve cfg_auto (JStr ''mcts-gpt-4o-mini'') = Inr (''mcts'', JStr ''gpt-4o-mini'')"
proof -
  have a: "cfg_approach cfg_auto = ''auto''" by (simp add: cfg_simps)
  have h: "CHR ''-'' \<notin> set ''mcts''" by simp
  have m: "field (body_hi ''mcts-gpt-4o-mini'') ''model'' = Some (JStr ''mcts-gpt-4o-mini'')"
    by (simp add: body_hi_def)
  from auto_splits_at_first_hyphen [OF a h, of "''gpt-4o-mini''"] a h m prepare_auto_hi_mcts
  show ?thesis by simp
qed

text \<open>
  C4: when the configured approach is not \<^verbatim>\<open>auto\<close>, a request that reaches the
  \<^verbatim>\<open>try\<close> block does so with the configured approach and with the model of the
  request as it was sent, or the configured model when the request has no \<^verbatim>\<open>model\<close>
  key; that model is the one handed to the strategy.
\<close>

theorem fixed_approach_keeps_model:
  assumes "cfg_approach cfg \<noteq> ''auto''" and "prepare key cfg data = Inr v"
  shows "inv_approach v = cfg_approach cfg
       \<and> inv_model v = (case field data ''model'' of Some m \<Rightarrow> m | None \<Rightarrow> JStr (cfg_model cfg))
       \<and> (\<forall>call\<in>set (invoked (proxy key strategies cfg data)). model_of call = inv_model v)"
proof -
  from assms(2) obtain rq where t: "translate cfg data = Inr rq"
    and res: "resolve cfg (req_model rq) = Inr (inv_approach v, inv_model v)"
    by (rule prepare_InrD)
  from t obtain kvs where d: "data = JObj kvs"
    and m: "req_model rq = (case map_of kvs ''model'' of None \<Rightarrow> JStr (cfg_model cfg) | Some m \<Rightarrow> m)"
    by (rule translate_InrD)
  from res assms(1) have "inv_approach v = cfg_approach cfg" "inv_model v = req_model rq"
    by (simp_all add: resolve_def)
  moreover have "model_of call = inv_model v"
    if "call \<in> set (invoked (proxy key strategies cfg data))" for call
    using invoked_dispatch [OF that] assms(2) dispatch_passes by auto
  ultimately show ?thesis using d m by (auto split: option.splits)
qed

text \<open>The theorem at a server started with \<^verbatim>\<open>--approach bon\<close>.\<close>

theorem fixed_approach_keeps_model_witness:
  "cfg_approach cfg_bon \<noteq> ''auto''
   \<and> prepare (Some ''sk'') cfg_bon (body_hi ''gpt-4o-mini'') = Inr (inv_hi ''bon'' ''gpt-4o-mini'')
   \<and> inv_approach (inv_hi ''bon'' ''gpt-4o-mini'') = cfg_approach cfg_bon
   \<and> inv_model (inv_hi ''bon'' ''gpt-4o-mini'') = JStr ''gpt-4o-mini''
   \<and> list_all (\<lambda>call. model_of call = JStr ''gpt-4o-mini'')
        (invoked (proxy (Some ''sk'') (answering (JStr ''answer'')) cfg_bon (body_hi ''gpt-4o-mini'')))"
proof -
  have a: "cfg_approach cfg_bon \<noteq> ''auto''" by (simp add: cfg_simps)
  have m: "field (body_hi ''gpt-4o-mini'') ''model'' = Some (JStr ''gpt-4o-mini'')"
    by (simp add: body_hi_def)
  from fixed_approach_keeps_model [OF a prepare_bon_hi, of "answering (JStr ''answer'')"]
       a prepare_bon_hi m
  show ?thesis by (simp add: list_all_iff)
qed

text \<open>
  C5: whenever lines 50-55 raise nothing, the system prompt is the content of the first
  message whose role is \<^verbatim>\<open>system\<close> and the query is the content of the first message
  whose role is \<^verbatim>\<open>user\<close>, each the empty string when there is no such message; later
  messages of the role do not matter, and a body without a \<^verbatim>\<open>messages\<close> key gives two
  empty strings. Lines 50-55 raise nothing when the body is an object whose messages,
  if any, are a list of objects that each have a role and a content.
\<close>

theorem first_message_of_each_role:
  "(translate cfg data = Inr rq \<longrightarrow>
      (\<exists>msgs. iter (case field data ''messages'' of None \<Rightarrow> JArr [] | Some m \<Rightarrow> m) = Inr msgs
         \<and> first_content_of_role ''system'' msgs = Some (req_system_prompt rq)
         \<and> first_content_of_role ''user'' msgs = Some (req_initial_query rq))
      \<and> (field data ''messages'' = None \<longrightarrow>
            req_system_prompt rq = JStr '''' \<and> req_initial_query rq = JStr ''''))
   \<and> (data = JObj kvs \<longrightarrow>
        (case map_of kvs ''messages'' of None \<Rightarrow> JArr [] | Some m \<Rightarrow> m) = JArr msgs' \<longrightarrow>
        (\<forall>msg\<in>set msgs'. well_formed_message msg) \<longrightarrow>
        (\<exists>rq'. translate cfg data = Inr rq'))"
proof -
  have fwd: "(\<exists>msgs. iter (case field data ''messages'' of None \<Rightarrow> JArr [] | Some m \<Rightarrow> m) = Inr msgs
         \<and> first_content_of_role ''system'' msgs = Some (req_system_prompt rq)
         \<and> first_content_of_role ''user'' msgs = Some (req_initial_query rq))
      \<and> (field data ''messages'' = None \<longrightarrow>
            req_system_prompt rq = JStr '''' \<and> req_initial_query rq = JStr '''')"
    if t: "translate cfg data = Inr rq"
  proof -
    from t obtain kvs msgs where d: "data = JObj kvs"
      and it: "iter (case map_of kvs ''messages'' of None \<Rightarrow> JArr [] | Some m \<Rightarrow> m) = Inr msgs"
      and s: "next_content ''system'' msgs = Inr (req_system_prompt rq)"
      and u: "next_content ''user'' msgs = Inr (req_initial_query rq)"
      by (rule translate_InrD)
    have "req_system_prompt rq = JStr '''' \<and> req_initial_query rq = JStr ''''"
      if "field data ''messages'' = None"
      using that d it s u by auto
    with d it next_content_spec [OF s] next_content_spec [OF u] show ?thesis by auto
  qed
  have total: "\<exists>rq'. translate cfg data = Inr rq'"
    if d: "data = JObj kvs"
      and m: "(case map_of kvs ''messages'' of None \<Rightarrow> JArr [] | Some m \<Rightarrow> m) = JArr msgs'"
      and wf: "\<forall>msg\<in>set msgs'. well_formed_message msg"
  proof -
    from next_content_total [OF wf] obtain s where "next_content ''system'' msgs' = Inr s"
      by blast
    moreover from next_content_total [OF wf] obtain u where "next_content ''user'' msgs' = Inr u"
      by blast
    ultimately show ?thesis using d m by (simp add: translate_def)
  qed
  from fwd total show ?thesis by blast
qed

text \<open>
  The theorem at a conversation that opens with a user message and has two messages of
  each role: the first of each is taken.
\<close>

theorem first_message_of_each_role_witness:
  "translate cfg_bon (JObj [(''messages'', JArr msgs_two_systems)]) =
     Inr \<lparr> req_model = JStr ''gpt-4o-mini'', req_n = JInt 1,
           req_system_prompt = JStr ''be brief'', req_initial_query = JStr ''first question'' \<rparr>
   \<and> list_all well_formed_message msgs_two_systems
   \<and> first_content_of_role ''system'' msgs_two_systems = Some (JStr ''be brief'')
   \<and> first_content_of_role ''user'' msgs_two_systems = Some (JStr ''first question'')
   \<and> (\<exists>rq'. translate cfg_bon (JObj [(''messages'', JArr msgs_two_systems)]) = Inr rq')"
proof -
  let ?data = "JObj [(''messages'', JArr msgs_two_systems)]"
  let ?rq = "\<lparr> req_model = JStr ''gpt-4o-mini'', req_n = JInt 1,
           req_system_prompt = JStr ''be brief'', req_initial_query = JStr ''first question'' \<rparr>"
  have t: "translate cfg_bon ?data = Inr ?rq"
    by (simp add: translate_def msgs_two_systems_def cfg_simps)
  have wf: "\<forall>msg\<in>set msgs_two_systems. well_formed_message msg"
    by (simp add: msgs_two_systems_def well_formed_message_def)
  from first_message_of_each_role
         [of cfg_bon ?data ?rq "[(''messages'', JArr msgs_two_systems)]" msgs_two_systems]
       t wf
  show ?thesis by (simp add: list_all_iff)
qed

text \<open>
  C6: a result that is a single string gives exactly one choice, with index 0 and the
  string as content; a result that is a list gives one choice for each element, the
  choice at position \<open>k\<close> having index \<open>k\<close> and the \<open>k\<close>-th element as content; every
  choice has finish reason \<^verbatim>\<open>stop\<close> and message role \<^verbatim>\<open>assistant\<close>. This body is what
  the handler returns, with status 200, when the strategy returns.
\<close>

theorem choices_follow_result_order:
  "response_data model (JStr s) = JObj [(''model'', model), (''choices'', JArr [choice 0 (JStr s)])]
   \<and> response_data model (JArr xs) =
       JObj [(''model'', model),
             (''choices'', JArr (map (\<lambda>k. choice (int k) (xs ! k)) [0..<length xs]))]
   \<and> choice i c =
       JObj [(''index'', JInt i),
             (''message'', JObj [(''role'', JStr ''assistant''), (''content'', c)]),
             (''finish_reason'', JStr ''stop'')]
   \<and> (prepare key cfg data = Inr v \<longrightarrow> dispatch cfg v = Inr call \<longrightarrow>
        strategies call = Inr r \<longrightarrow>
        returned (proxy key strategies cfg data) = Response (response_data (inv_model v) r) 200)"
  by (simp add: append_choices_eq choice_def proxy_def)

text \<open>The theorem at a strategy that returns \<^verbatim>\<open>["a", "b", "c"]\<close>.\<close>

theorem choices_follow_result_order_witness:
  "prepare (Some ''sk'') cfg_bon (body_hi ''gpt-4o-mini'') = Inr (inv_hi ''bon'' ''gpt-4o-mini'')
   \<and> dispatch cfg_bon (inv_hi ''bon'' ''gpt-4o-mini'') =
       Inr (best_of_n_sampling (JStr '''') (JStr ''hi'') (OpenAI (Some ''sk'') None) (JStr ''gpt-4o-mini'') 3)
   \<and> answering (JArr [JStr ''a'', JStr ''b'', JStr ''c''])
        (best_of_n_sampling (JStr '''') (JStr ''hi'') (OpenAI (Some ''sk'') None) (JStr ''gpt-4o-mini'') 3)
       = Inr (JArr [JStr ''a'', JStr ''b'', JStr ''c''])
   \<and> returned (proxy (Some ''sk'') (answering (JArr [JStr ''a'', JStr ''b'', JStr ''c''])) cfg_bon
                  (body_hi ''gpt-4o-mini'')) =
       Response (JObj [(''model'', JStr ''gpt-4o-mini''),
                       (''choices'', JArr [choice 0 (JStr ''a''), choice 1 (JStr ''b''),
                                          choice 2 (JStr ''c'')])]) 200"
proof -
  let ?call = "best_of_n_sampling (JStr '''') (JStr ''hi'') (OpenAI (Some ''sk'') None) (JStr ''gpt-4o-mini'') 3"
  let ?r = "JArr [JStr ''a'', JStr ''b'', JStr ''c'']"
  have a: "answering ?r ?call = Inr ?r" by (simp add: answering_def)
  from choices_follow_result_order
         [of "JStr ''gpt-4o-mini''" "''x''" "[JStr ''a'', JStr ''b'', JStr ''c'']" 0 JNull
             "Some ''sk''" cfg_bon "body_hi ''gpt-4o-mini''" "inv_hi ''bon'' ''gpt-4o-mini''" ?call
             "answering ?r" ?r]
       prepare_bon_hi dispatch_bon_hi [of "''gpt-4o-mini''"] a
  show ?thesis by (simp add: inv_hi_def)
qed

text \<open>
  C7: when the request reaches the \<^verbatim>\<open>try\<close> block with an approach that is none of the
  ten names of the chain, no strategy is called and the handler returns status 500 with
  the body \<^verbatim>\<open>{"error": "Unknown approach: <name>"}\<close>.
\<close>

theorem unknown_approach_is_reported:
  assumes "prepare key cfg data = Inr v" and "inv_approach v \<notin> set approaches"
  shows "proxy key strategies cfg data =
           \<lparr> returned = Response (JObj [(''error'', JStr (''Unknown approach: '' @ inv_approach v))]) 500,
             invoked = [], config_after = cfg \<rparr>"
  using assms(1) dispatch_unknown [OF assms(2), of cfg]
  by (simp add: proxy_def error_body_def)

text \<open>The theorem at a request whose model prefix \<^verbatim>\<open>gpt\<close> is no approach.\<close>

theorem unknown_approach_is_reported_witness:
  "prepare (Some ''sk'') cfg_auto (body_hi ''gpt-4o-mini'') = Inr (inv_hi ''gpt'' ''4o-mini'')
   \<and> inv_approach (inv_hi ''gpt'' ''4o-mini'') \<notin> set approaches
   \<and> proxy (Some ''sk'') (answering (JStr ''answer'')) cfg_auto (body_hi ''gpt-4o-mini'') =
       \<lparr> returned = Response (JObj [(''error'', JStr ''Unknown approach: gpt'')]) 500,
         invoked = [], config_after = cfg_auto \<rparr>"
proof -
  have n: "inv_approach (inv_hi ''gpt'' ''4o-mini'') \<notin> set approaches"
    by (simp add: inv_hi_def approaches_def)
  from unknown_approach_is_reported [OF prepare_auto_hi_gpt n, of "answering (JStr ''answer'')"]
       prepare_auto_hi_gpt n
  show ?thesis by (simp add: inv_hi_def)
qed

text \<open>
  C8: a run of the handler leaves \<^verbatim>\<open>server_config\<close> as it found it, whatever the
  request and whatever the strategies do, and so does any sequence of runs; the writes
  are those of \<^verbatim>\<open>main\<close>, which stores the command line.
\<close>

theorem proxy_leaves_config:
  "config_after (proxy key strategies cfg data) = cfg
   \<and> snd (serve key strategies cfg requests) = cfg
   \<and> cfg_approach (main a cfg) = arg_approach a
   \<and> cfg_model (main a cfg) = arg_model a
   \<and> cfg_base_url (main a cfg) = Some (arg_base_url a)"
proof -
  have "snd (serve key strategies cfg requests) = cfg"
    by (induction requests) (auto simp: proxy_config_after split: prod.splits)
  then show ?thesis by (simp add: proxy_config_after main_def)
qed

text \<open>
  C9: every strategy call of a run is given the client that the configuration selects:
  one bound to \<^verbatim>\<open>base_url\<close> when that is not empty, the default client otherwise; both
  carry the API key read at start-up.
\<close>

theorem client_follows_base_url:
  assumes "cfg_base_url cfg = Some base_url"
    and "call \<in> set (invoked (proxy key strategies cfg data))"
  shows "client_of call = (if base_url \<noteq> '''' then OpenAI key (Some base_url) else default_client key)
       \<and> client_api_key (client_of call) = key"
proof -
  from invoked_dispatch [OF assms(2)] obtain v
    where p: "prepare key cfg data = Inr v" and d: "dispatch cfg v = Inr call" by blast
  from p obtain client where "select_client key cfg = Inr client" "inv_client v = client"
    by (rule prepare_InrD)
  with assms(1) have "inv_client v =
      (if base_url \<noteq> '''' then OpenAI key (Some base_url) else default_client key)"
    by (auto simp: select_client_def)
  with dispatch_passes [OF d] show ?thesis by (simp add: default_client_def)
qed

text \<open>The theorem at a server with a base URL and at one without.\<close>

theorem client_follows_base_url_witness:
  "cfg_base_url cfg_local = Some ''http://localhost:8080/v1''
   \<and> best_of_n_sampling (JStr '''') (JStr ''hi'')
        (OpenAI (Some ''sk'') (Some ''http://localhost:8080/v1'')) (JStr ''gpt-4o-mini'') 3
      \<in> set (invoked (proxy (Some ''sk'') (answering (JStr ''answer'')) cfg_local
                       (body_hi ''gpt-4o-mini'')))
   \<and> cfg_base_url cfg_bon = Some ''''
   \<and> best_of_n_sampling (JStr '''') (JStr ''hi'') (OpenAI (Some ''sk'') None)
        (JStr ''gpt-4o-mini'') 3
      \<in> set (invoked (proxy (Some ''sk'') (answering (JStr ''answer'')) cfg_bon
                       (body_hi ''gpt-4o-mini'')))
   \<and> default_client (Some ''sk'') = OpenAI (Some ''sk'') None"
proof -
  let ?c1 = "best_of_n_sampling (JStr '''') (JStr ''hi'')
        (OpenAI (Some ''sk'') (Some ''http://localhost:8080/v1'')) (JStr ''gpt-4o-mini'') 3"
  let ?c2 = "best_of_n_sampling (JStr '''') (JStr ''hi'') (OpenAI (Some ''sk'') None)
        (JStr ''gpt-4o-mini'') 3"
  have b1: "cfg_base_url cfg_local = Some ''http://localhost:8080/v1''"
    by (simp add: cfg_local_def main_def)
  have i1: "?c1 \<in> set (invoked (proxy (Some ''sk'') (answering (JStr ''answer'')) cfg_local
                       (body_hi ''gpt-4o-mini'')))"
    by (simp add: body_hi_def cfg_local_def cfg_simps run_simps answering_def)
  have b2: "cfg_base_url cfg_bon = Some ''''"
    by (simp add: cfg_simps)
  have i2: "?c2 \<in> set (invoked (proxy (Some ''sk'') (answering (JStr ''answer'')) cfg_bon
                       (body_hi ''gpt-4o-mini'')))"
    by (simp add: body_hi_def cfg_simps run_simps answering_def)
  from client_follows_base_url [OF b1 i1] client_follows_base_url [OF b2 i2] b1 i1 b2 i2
  show ?thesis by simp
qed

text \<open>
  C10: in a successful response the \<^verbatim>\<open>model\<close> field is the model the handler resolved.
  In auto mode the model that was sent (or, without a \<^verbatim>\<open>model\<close> key, the configured
  one) is \<open>a-b\<close> with no hyphen in \<open>a\<close>, and the field is \<open>b\<close>, not what was sent;
  otherwise the field is what was sent.
\<close>

theorem response_model_is_resolved_model:
  assumes "returned (proxy key strategies cfg data) = Response body 200"
  shows "\<exists>sent. dict_get data ''model'' (JStr (cfg_model cfg)) = Inr sent
       \<and> (if cfg_approach cfg = ''auto''
          then \<exists>a b. sent = JStr (a @ CHR ''-'' # b) \<and> CHR ''-'' \<notin> set a
                 \<and> getitem body ''model'' = Inr (JStr b) \<and> JStr b \<noteq> sent
          else getitem body ''model'' = Inr sent)"
proof -
  from assms obtain v call r where p: "prepare key cfg data = Inr v"
    and b: "body = response_data (inv_model v) r"
    by (auto simp: proxy_def split: sum.splits)
  from p obtain rq where t: "translate cfg data = Inr rq"
    and res: "resolve cfg (req_model rq) = Inr (inv_approach v, inv_model v)"
    by (rule prepare_InrD)
  from t obtain kvs where d: "data = JObj kvs"
    and m: "req_model rq = (case map_of kvs ''model'' of None \<Rightarrow> JStr (cfg_model cfg) | Some m \<Rightarrow> m)"
    by (rule translate_InrD)
  have g: "getitem body ''model'' = Inr (inv_model v)"
    unfolding b by (cases r) simp_all
  have s: "dict_get data ''model'' (JStr (cfg_model cfg)) = Inr (req_model rq)"
    using d m by (simp split: option.splits)
  show ?thesis
  proof (cases "cfg_approach cfg = ''auto''")
    case True
    from resolve_auto_InrD [OF True res] obtain b'
      where "req_model rq = JStr (inv_approach v @ CHR ''-'' # b')"
        "CHR ''-'' \<notin> set (inv_approach v)" "inv_model v = JStr b'"
      by blast
    with True g s show ?thesis by auto
  next
    case False
    with res have "inv_model v = req_model rq" by (simp add: resolve_def)
    with False g s show ?thesis by simp
  qed
qed

text \<open>The theorem at the model \<^verbatim>\<open>mcts-gpt-4o-mini\<close> in auto mode.\<close>

theorem response_model_is_resolved_model_witness:
  "returned (proxy (Some ''sk'') (answering (JStr ''answer'')) cfg_auto (body_hi ''mcts-gpt-4o-mini'')) =
     Response (JObj [(''model'', JStr ''gpt-4o-mini''),
                     (''choices'', JArr [choice 0 (JStr ''answer'')])]) 200
   \<and> cfg_approach cfg_auto = ''auto''
   \<and> (\<exists>a b. JStr ''mcts-gpt-4o-mini'' = JStr (a @ CHR ''-'' # b) \<and> CHR ''-'' \<notin> set a
         \<and> getitem (JObj [(''model'', JStr ''gpt-4o-mini''),
                          (''choices'', JArr [choice 0 (JStr ''answer'')])]) ''model''
            = Inr (JStr b))"
proof -
  have r: "returned (proxy (Some ''sk'') (answering (JStr ''answer'')) cfg_auto (body_hi ''mcts-gpt-4o-mini'')) =
     Response (JObj [(''model'', JStr ''gpt-4o-mini''),
                     (''choices'', JArr [choice 0 (JStr ''answer'')])]) 200"
    by (simp add: proxy_def prepare_auto_hi_mcts) (simp add: dispatch_def inv_hi_def answering_def)
  have a: "cfg_approach cfg_auto = ''auto''" by (simp add: cfg_simps)
  have d: "dict_get (body_hi ''mcts-gpt-4o-mini'') ''model'' (JStr (cfg_model cfg_auto)) =
             Inr (JStr ''mcts-gpt-4o-mini'')"
    by (simp add: body_hi_def)
  from response_model_is_resolved_model [OF r] a d r show ?thesis by auto
qed

end
